theory Spec2Isabelle
  imports Complex_Main "HOL-Library.Sublist"
begin

section \<open>The Cache-Augmented Generation core of KnowledgePersistence-AI\<close>

text \<open>
  A shallow embedding of \<^verbatim>\<open>cag_cache_warmer.py\<close>, \<^verbatim>\<open>cag_context_manager.py\<close>,
  \<^verbatim>\<open>cag_engine.py\<close> (the direct-store variant) and \<^verbatim>\<open>cag_mcp_integrated.py\<close>
  (the tool-invocation variant, suffix \<open>_mcp\<close>).

  Conventions of the model:
  \<^item> a Python \<open>float\<close> is a \<open>real\<close>: rounding error of IEEE arithmetic is not modelled;
  \<^item> a \<open>datetime\<close> is an \<open>int\<close>, the microseconds since some epoch, and
    \<open>timedelta.days\<close> is the floor of the difference divided by one day;
  \<^item> \<open>datetime.now()\<close> and \<open>time.time()\<close> are inputs of the function that reads them;
  \<^item> a dictionary whose keys the code reads with \<open>.get(key, default)\<close> is a record
    with \<open>option\<close> fields, \<open>None\<close> for an absent key; \<open>d[key]\<close> on an absent key is
    the error \<open>KeyError\<close>;
  \<^item> the knowledge store and the tool registry are outside the repository: what a
    query returns (rows, or an exception) is an input, of type \<open>error + knowledge_item list\<close>;
  \<^item> an exception is \<open>Inl\<close>; a method that mutates \<open>self\<close> returns the new state
    with its outcome, also when it raises.
\<close>

subsection \<open>Python helpers\<close>

datatype error = DBError | KeyError

text \<open>\<open>d.get(k, default)\<close> on a dictionary literal, kept as an association list.\<close>

definition dict_get :: "('k \<times> 'v) list \<Rightarrow> 'k \<Rightarrow> 'v \<Rightarrow> 'v" where
  "dict_get d k dflt = (case map_of d k of None \<Rightarrow> dflt | Some v \<Rightarrow> v)"

text \<open>
  \<open>d[k] = v\<close> on an insertion-ordered dictionary: an existing key keeps its position,
  a new key goes last.
\<close>

fun dict_set :: "('k \<times> 'v) list \<Rightarrow> 'k \<Rightarrow> 'v \<Rightarrow> ('k \<times> 'v) list" where
  "dict_set [] k v = [(k, v)]"
| "dict_set ((k', v') # d) k v = (if k' = k then (k, v) # d else (k', v') # dict_set d k v)"

text \<open>\<open>sep.join(xs)\<close>.\<close>

fun join :: "string \<Rightarrow> string list \<Rightarrow> string" where
  "join sep [] = []"
| "join sep [x] = x"
| "join sep (x # y # ys) = x @ sep @ join sep (y # ys)"

text \<open>
  \<open>str.upper()\<close> on ASCII letters (the layer names it is applied to are ASCII).
\<close>

definition upper_char :: "char \<Rightarrow> char" where
  "upper_char c =
     dict_get (zip ''abcdefghijklmnopqrstuvwxyz'' ''ABCDEFGHIJKLMNOPQRSTUVWXYZ'') c c"

definition upper :: "string \<Rightarrow> string" where
  "upper s = map upper_char s"

text \<open>
  \<open>str.split()\<close> with no argument: the maximal runs of non-whitespace characters.
  The whitespace characters are those of \<open>str.isspace\<close> below code point 256.
\<close>

definition is_space :: "char \<Rightarrow> bool" where
  "is_space c \<longleftrightarrow>
     c \<in> set [CHR 0x09, CHR 0x0A, CHR 0x0B, CHR 0x0C, CHR 0x0D, CHR 0x1C, CHR 0x1D,
              CHR 0x1E, CHR 0x1F, CHR 0x20, CHR 0x85, CHR 0xA0]"

fun split_ws :: "string \<Rightarrow> string \<Rightarrow> string list" where
  "split_ws [] cur = (if cur = [] then [] else [cur])"
| "split_ws (c # cs) cur =
     (if is_space c then (if cur = [] then split_ws cs [] else cur # split_ws cs [])
      else split_ws cs (cur @ [c]))"

definition py_split :: "string \<Rightarrow> string list" where
  "py_split text = split_ws text []"

subsection \<open>Knowledge items and the context layers\<close>

text \<open>
  A knowledge item as the store or the tool client returns it. \<open>id\<close>, \<open>title\<close> and
  \<open>content\<close> are always present; the other keys may be absent.
\<close>

record knowledge_item =
  item_id :: string
  knowledge_type :: "string option"
  category :: "string option"
  title :: string
  content :: string
  created_at :: "int option"
  importance_score :: "int option"
  access_count :: "int option"

datatype context_layer =
  SYSTEM | PROJECT | SESSION | DOMAIN | EXPERIENCE | STRATEGIC | DYNAMIC | RESPONSE

fun layer_value :: "context_layer \<Rightarrow> string" where
  "layer_value SYSTEM = ''system''"
| "layer_value PROJECT = ''project''"
| "layer_value SESSION = ''session''"
| "layer_value DOMAIN = ''domain''"
| "layer_value EXPERIENCE = ''experience''"
| "layer_value STRATEGIC = ''strategic''"
| "layer_value DYNAMIC = ''dynamic''"
| "layer_value RESPONSE = ''response''"

text \<open>\<open>for layer in ContextLayer\<close> iterates in definition order.\<close>

definition ContextLayer :: "context_layer list" where
  "ContextLayer = [SYSTEM, PROJECT, SESSION, DOMAIN, EXPERIENCE, STRATEGIC, DYNAMIC, RESPONSE]"

subsection \<open>Token estimator (\<open>count_tokens\<close>, the same in both variants)\<close>

definition count_tokens :: "string \<Rightarrow> real" where
  "count_tokens text = real (length (py_split text)) * 1.3"

subsection \<open>Priority scorer\<close>

definition microseconds_per_day :: int where
  "microseconds_per_day = 86400000000"

text \<open>\<open>(datetime.now() - created_at.replace(tzinfo=None)).days\<close>\<close>

definition days_old :: "int \<Rightarrow> int \<Rightarrow> int" where
  "days_old now created = (now - created) div microseconds_per_day"

definition strategic_value_table :: "(string \<times> real) list" where
  "strategic_value_table =
     [(''technical_discovery'', 0.9), (''procedural'', 0.8), (''experiential'', 0.7),
      (''contextual'', 0.6), (''factual'', 0.5), (''relational'', 0.4)]"

definition type_weights :: "(string \<times> real) list" where
  "type_weights =
     [(''procedural'', 0.9), (''technical_discovery'', 0.8), (''experiential'', 0.7),
      (''contextual'', 0.6), (''factual'', 0.5), (''relational'', 0.4)]"

text \<open>
  \<open>CacheWarmingEngine.calculate_cache_priority\<close> (Mode A). \<open>now\<close> is what
  \<open>datetime.now()\<close> returns during the call.
\<close>

definition calculate_cache_priority :: "int \<Rightarrow> knowledge_item \<Rightarrow> real" where
  "calculate_cache_priority now knowledge_item =
     (let priority_score = 0;
          created = (case created_at knowledge_item of None \<Rightarrow> now | Some c \<Rightarrow> c);
          recency = max 0 (1 - real_of_int (days_old now created) / 30);
          priority_score = priority_score + recency * 0.3;
          ktype = (case knowledge_type knowledge_item of None \<Rightarrow> ''factual'' | Some t \<Rightarrow> t);
          strategic_value = dict_get strategic_value_table ktype 0.5;
          priority_score = priority_score + strategic_value * 0.25;
          accesses = (case access_count knowledge_item of None \<Rightarrow> 1 | Some a \<Rightarrow> a);
          frequency = min 1 (real_of_int accesses / 10);
          priority_score = priority_score + frequency * 0.25;
          type_weight = dict_get type_weights ktype 0.5;
          priority_score = priority_score + type_weight * 0.2
      in min 1 priority_score)"

text \<open>\<open>CAGCacheWarmerMCP.calculate_cache_priority\<close> (Mode B).\<close>

definition calculate_cache_priority_mcp :: "int \<Rightarrow> knowledge_item \<Rightarrow> real" where
  "calculate_cache_priority_mcp now knowledge_item =
     (let priority_score = 0;
          importance =
            real_of_int (case importance_score knowledge_item of None \<Rightarrow> 50 | Some i \<Rightarrow> i) / 100;
          priority_score = priority_score + importance * 0.4;
          ktype = (case knowledge_type knowledge_item of None \<Rightarrow> ''factual'' | Some t \<Rightarrow> t);
          type_weight = dict_get type_weights ktype 0.5;
          priority_score = priority_score + type_weight * 0.3;
          created = (case created_at knowledge_item of None \<Rightarrow> now | Some c \<Rightarrow> c);
          recency = max 0 (1 - real_of_int (days_old now created) / 30);
          priority_score = priority_score + recency * 0.3
      in min 1 priority_score)"

subsection \<open>Layer classifier\<close>

definition determine_cache_layer :: "knowledge_item \<Rightarrow> string" where
  "determine_cache_layer knowledge_item =
     (let ktype = (case knowledge_type knowledge_item of None \<Rightarrow> ''factual'' | Some t \<Rightarrow> t)
      in if ktype \<in> set [''procedural'', ''technical_discovery''] then ''domain''
         else if ktype = ''experiential'' then ''experience''
         else if ktype = ''contextual'' then ''session''
         else ''dynamic'')"

definition determine_cache_layer_mcp :: "knowledge_item \<Rightarrow> string" where
  "determine_cache_layer_mcp knowledge_item =
     (let ktype = (case knowledge_type knowledge_item of None \<Rightarrow> ''factual'' | Some t \<Rightarrow> t);
          importance = (case importance_score knowledge_item of None \<Rightarrow> 50 | Some i \<Rightarrow> i)
      in if importance > 80 then ''strategic''
         else if ktype \<in> set [''procedural'', ''technical_discovery''] then ''domain''
         else if ktype = ''experiential'' then ''experience''
         else if ktype = ''contextual'' then ''session''
         else ''dynamic'')"

subsection \<open>Context compilation\<close>

text \<open>
  The context dictionary maps a layer name to the layer's body. The loop of
  \<open>compile_context\<close> appends three lines to \<open>compiled\<close> for every layer whose
  name is a key with a non-empty body.
\<close>

definition layer_header :: "string \<Rightarrow> string" where
  "layer_header layer_name = ''=== '' @ upper layer_name @ '' CONTEXT ===''"

definition layer_header_mcp :: "string \<Rightarrow> string" where
  "layer_header_mcp layer_name = ''=== '' @ upper layer_name @ '' CONTEXT (MCP-INTEGRATED) ===''"

fun compile_loop ::
  "(string \<Rightarrow> string) \<Rightarrow> (string \<rightharpoonup> string) \<Rightarrow> context_layer list \<Rightarrow> string list \<Rightarrow> string list"
where
  "compile_loop hdr context [] compiled = compiled"
| "compile_loop hdr context (layer # layers) compiled =
     (let layer_name = layer_value layer in
      case context layer_name of
        None \<Rightarrow> compile_loop hdr context layers compiled
      | Some body \<Rightarrow>
          if body \<noteq> []
          then compile_loop hdr context layers (compiled @ [hdr layer_name, body, []])
          else compile_loop hdr context layers compiled)"

definition compile_context :: "(string \<rightharpoonup> string) \<Rightarrow> string" where
  "compile_context context = join [CHR 0x0A] (compile_loop layer_header context ContextLayer [])"

definition compile_context_mcp :: "(string \<rightharpoonup> string) \<Rightarrow> string" where
  "compile_context_mcp context =
     join [CHR 0x0A] (compile_loop layer_header_mcp context ContextLayer [])"

subsection \<open>The warm cache and its loader\<close>

text \<open>
  The dictionaries the warming phases build (\<open>cache_item\<close>), the values of the warm
  cache (\<open>cache_entry\<close>, with \<open>source\<close> present in the tool-invocation variant only)
  and the state of a cache warmer. \<open>warm_invocations\<close> is instrumentation, not a field
  of the source: \<open>warm_cache_for_session\<close> appends its \<open>session_id\<close> on entry, so that
  how often it ran can be read off the state.
\<close>

record cache_item =
  ci_id :: string
  ci_knowledge_type :: string
  ci_category :: string
  ci_title :: string
  ci_content :: string
  ci_created_at :: int
  cache_priority :: real
  cache_layer :: string
  prediction_confidence :: "real option"

record cache_entry =
  entry_content :: string
  entry_title :: string
  entry_knowledge_type :: string
  priority :: real
  loaded_at :: int
  source :: "string option"

record warmer =
  warm_cache :: "(string \<times> cache_entry) list"
  cache_priority_threshold :: real
  max_cache_items :: nat
  pattern_recognizer :: bool
  warm_invocations :: "string list"

definition init_warmer :: warmer where
  "init_warmer = \<lparr>warm_cache = [], cache_priority_threshold = 0.3, max_cache_items = 100,
     pattern_recognizer = False, warm_invocations = []\<rparr>"

text \<open>
  The dictionary literal of the direct-store phases: \<open>item['knowledge_type']\<close>,
  \<open>item['category']\<close> and \<open>item['created_at']\<close> raise \<open>KeyError\<close> on an absent key.
\<close>

definition cache_item_of ::
  "real \<Rightarrow> string \<Rightarrow> real option \<Rightarrow> knowledge_item \<Rightarrow> error + cache_item" where
  "cache_item_of prio layer conf item =
     (case knowledge_type item of None \<Rightarrow> Inl KeyError | Some ktype \<Rightarrow>
     (case category item of None \<Rightarrow> Inl KeyError | Some cat \<Rightarrow>
     (case created_at item of None \<Rightarrow> Inl KeyError | Some created \<Rightarrow>
        Inr \<lparr>ci_id = item_id item, ci_knowledge_type = ktype, ci_category = cat,
             ci_title = title item, ci_content = content item, ci_created_at = created,
             cache_priority = prio, cache_layer = layer, prediction_confidence = conf\<rparr>)))"

text \<open>
  The tool-invocation phases read the category with \<open>item.get('category', dflt)\<close>.
\<close>

definition cache_item_of_mcp ::
  "real \<Rightarrow> string \<Rightarrow> string \<Rightarrow> knowledge_item \<Rightarrow> error + cache_item" where
  "cache_item_of_mcp prio layer dflt item =
     (case knowledge_type item of None \<Rightarrow> Inl KeyError | Some ktype \<Rightarrow>
     (case created_at item of None \<Rightarrow> Inl KeyError | Some created \<Rightarrow>
        Inr \<lparr>ci_id = item_id item, ci_knowledge_type = ktype,
             ci_category = (case category item of None \<Rightarrow> dflt | Some cat \<Rightarrow> cat),
             ci_title = title item, ci_content = content item, ci_created_at = created,
             cache_priority = prio, cache_layer = layer, prediction_confidence = None\<rparr>))"

text \<open>The loop \<open>for item in results: ... append(cache_item)\<close>; the first exception ends it.\<close>

fun build_items ::
  "(knowledge_item \<Rightarrow> error + cache_item) \<Rightarrow> knowledge_item list \<Rightarrow> error + cache_item list"
where
  "build_items f [] = Inr []"
| "build_items f (item # results) =
     (case f item of
        Inl e \<Rightarrow> Inl e
      | Inr cache_item \<Rightarrow>
          (case build_items f results of
             Inl e \<Rightarrow> Inl e
           | Inr rest \<Rightarrow> Inr (cache_item # rest)))"

text \<open>
  \<open>sorted(xs, key=lambda x: x['cache_priority'], reverse=True)\<close>: a stable sort,
  descending.
\<close>

definition sorted_by_priority :: "cache_item list \<Rightarrow> cache_item list" where
  "sorted_by_priority xs = sort_key (\<lambda>x. - cache_priority x) xs"

text \<open>
  The phase loaders of \<open>CacheWarmingEngine\<close>. \<open>fetched\<close> is what connecting and
  running the phase's query gave: the rows, or the exception raised.
\<close>

definition load_core_knowledge ::
  "int \<Rightarrow> error + knowledge_item list \<Rightarrow> error + cache_item list" where
  "load_core_knowledge now fetched =
     (case fetched of
        Inl e \<Rightarrow> Inl e
      | Inr results \<Rightarrow>
          (case build_items (\<lambda>item. cache_item_of (calculate_cache_priority now item)
                                 (determine_cache_layer item) None item) results of
             Inl e \<Rightarrow> Inl e
           | Inr core_knowledge \<Rightarrow> Inr (sorted_by_priority core_knowledge)))"

definition predict_session_knowledge ::
  "int \<Rightarrow> error + knowledge_item list \<Rightarrow> error + cache_item list" where
  "predict_session_knowledge now fetched =
     (case fetched of
        Inl e \<Rightarrow> Inl e
      | Inr results \<Rightarrow>
          (case build_items (\<lambda>item. cache_item_of (calculate_cache_priority now item)
                                 (determine_cache_layer item) None item) results of
             Inl e \<Rightarrow> Inl e
           | Inr session_knowledge \<Rightarrow> Inr (sorted_by_priority session_knowledge)))"

definition pattern_predict_knowledge ::
  "bool \<Rightarrow> int \<Rightarrow> error + knowledge_item list \<Rightarrow> error + cache_item list" where
  "pattern_predict_knowledge recognizer now fetched =
     (if \<not> recognizer then Inr []
      else case fetched of
        Inl e \<Rightarrow> Inl e
      | Inr results \<Rightarrow>
          build_items (\<lambda>item. cache_item_of (calculate_cache_priority now item)
                             ''experience'' (Some 0.7) item) results)"

definition load_strategic_insights ::
  "int \<Rightarrow> error + knowledge_item list \<Rightarrow> error + cache_item list" where
  "load_strategic_insights now fetched =
     (case fetched of
        Inl e \<Rightarrow> Inl e
      | Inr results \<Rightarrow>
          build_items (\<lambda>item. cache_item_of (calculate_cache_priority now item)
                             ''strategic'' None item) results)"

text \<open>The phase loaders of \<open>CAGCacheWarmerMCP\<close>.\<close>

definition load_core_knowledge_mcp ::
  "int \<Rightarrow> error + knowledge_item list \<Rightarrow> error + cache_item list" where
  "load_core_knowledge_mcp now fetched =
     (case fetched of
        Inl e \<Rightarrow> Inl e
      | Inr results \<Rightarrow>
          (case build_items (\<lambda>item. cache_item_of_mcp (calculate_cache_priority_mcp now item)
                                 (determine_cache_layer_mcp item) ''core'' item) results of
             Inl e \<Rightarrow> Inl e
           | Inr core_knowledge \<Rightarrow> Inr (sorted_by_priority core_knowledge)))"

definition predict_session_knowledge_mcp ::
  "int \<Rightarrow> error + knowledge_item list \<Rightarrow> error + cache_item list" where
  "predict_session_knowledge_mcp now fetched =
     (case fetched of
        Inl e \<Rightarrow> Inl e
      | Inr results \<Rightarrow>
          (case build_items (\<lambda>item. cache_item_of_mcp (calculate_cache_priority_mcp now item)
                                 (determine_cache_layer_mcp item) ''session'' item) results of
             Inl e \<Rightarrow> Inl e
           | Inr session_knowledge \<Rightarrow> Inr (sorted_by_priority session_knowledge)))"

definition load_strategic_insights_mcp ::
  "int \<Rightarrow> error + knowledge_item list \<Rightarrow> error + cache_item list" where
  "load_strategic_insights_mcp now fetched =
     (case fetched of
        Inl e \<Rightarrow> Inl e
      | Inr results \<Rightarrow>
          (let strategic_items =
                 filter (\<lambda>item. (case importance_score item of None \<Rightarrow> 0 | Some i \<Rightarrow> i) > 60)
                   results
           in build_items (\<lambda>item. cache_item_of_mcp (calculate_cache_priority_mcp now item)
                                 ''strategic'' ''strategic'' item) strategic_items))"

text \<open>
  \<open>preload_to_context\<close>: the only place that writes the warm cache.
  \<open>background_preload\<close> just calls it.
\<close>

fun preload_to_context :: "int \<Rightarrow> cache_item list \<Rightarrow> warmer \<Rightarrow> warmer" where
  "preload_to_context now [] w = w"
| "preload_to_context now (item # knowledge_items) w =
     preload_to_context now knowledge_items
       (if cache_priority item \<ge> cache_priority_threshold w
        then w\<lparr>warm_cache :=
                 dict_set (warm_cache w) (cache_layer item @ '':'' @ ci_id item)
                   \<lparr>entry_content = ci_content item, entry_title = ci_title item,
                    entry_knowledge_type = ci_knowledge_type item,
                    priority = cache_priority item, loaded_at = now, source = None\<rparr>\<rparr>
        else w)"

definition background_preload :: "int \<Rightarrow> cache_item list \<Rightarrow> warmer \<Rightarrow> warmer" where
  "background_preload now knowledge_items w = preload_to_context now knowledge_items w"

fun preload_to_context_mcp :: "int \<Rightarrow> cache_item list \<Rightarrow> warmer \<Rightarrow> warmer" where
  "preload_to_context_mcp now [] w = w"
| "preload_to_context_mcp now (item # knowledge_items) w =
     preload_to_context_mcp now knowledge_items
       (if cache_priority item \<ge> cache_priority_threshold w
        then w\<lparr>warm_cache :=
                 dict_set (warm_cache w) (cache_layer item @ '':'' @ ci_id item)
                   \<lparr>entry_content = ci_content item, entry_title = ci_title item,
                    entry_knowledge_type = ci_knowledge_type item,
                    priority = cache_priority item, loaded_at = now,
                    source = Some ''mcp_integrated''\<rparr>\<rparr>
        else w)"

subsection \<open>\<open>warm_cache_for_session\<close>\<close>

record user_context =
  ctx_keywords :: "string list option"
  ctx_project :: "string option"

record cache_stats =
  phases_completed :: nat
  items_loaded :: nat
  cache_size :: nat
  warming_time :: real
  mcp_integrated :: "bool option"

text \<open>
  What one run of the warmer reads from outside: the clock, and what each phase's query
  gives (the session query depends on the keywords and the project).
\<close>

record warm_env =
  env_now :: int
  warming_start :: real
  warming_end :: real
  core_rows :: "error + knowledge_item list"
  session_rows :: "string list \<Rightarrow> string \<Rightarrow> error + knowledge_item list"
  pattern_rows :: "error + knowledge_item list"
  strategic_rows :: "error + knowledge_item list"

text \<open>
  \<open>CacheWarmingEngine.warm_cache_for_session\<close>: four phases in sequence, none of them
  inside a \<open>try\<close>, so the first exception leaves the method.
\<close>

definition warm_cache_for_session ::
  "warm_env \<Rightarrow> string \<Rightarrow> user_context option \<Rightarrow> warmer \<Rightarrow> (error + cache_stats) \<times> warmer"
where
  "warm_cache_for_session env session_id user_context w0 =
     (let w = w0\<lparr>warm_invocations := warm_invocations w0 @ [session_id]\<rparr>;
          user_context =
            (case user_context of
               None \<Rightarrow> \<lparr>ctx_keywords = Some [''CAG'', ''implementation''],
                        ctx_project = Some ''KnowledgePersistence-AI''\<rparr>
             | Some uc \<Rightarrow> uc);
          context_keywords = (case ctx_keywords user_context of None \<Rightarrow> [] | Some ks \<Rightarrow> ks);
          project_name =
            (case ctx_project user_context of None \<Rightarrow> ''KnowledgePersistence-AI'' | Some p \<Rightarrow> p);
          cache_stats = \<lparr>phases_completed = 0, items_loaded = 0, cache_size = 0,
                         warming_time = 0, mcp_integrated = None\<rparr>
      in case load_core_knowledge (env_now env) (core_rows env) of
           Inl e \<Rightarrow> (Inl e, w)
         | Inr core_knowledge \<Rightarrow>
      (let w = preload_to_context (env_now env) core_knowledge w;
           cache_stats = cache_stats\<lparr>phases_completed := phases_completed cache_stats + 1\<rparr>;
           cache_stats = cache_stats\<lparr>items_loaded := items_loaded cache_stats + length core_knowledge\<rparr>
       in case predict_session_knowledge (env_now env)
                 (session_rows env context_keywords project_name) of
            Inl e \<Rightarrow> (Inl e, w)
          | Inr session_knowledge \<Rightarrow>
      (let w = preload_to_context (env_now env) session_knowledge w;
           cache_stats = cache_stats\<lparr>phases_completed := phases_completed cache_stats + 1\<rparr>;
           cache_stats = cache_stats\<lparr>items_loaded := items_loaded cache_stats + length session_knowledge\<rparr>
       in case pattern_predict_knowledge (pattern_recognizer w) (env_now env) (pattern_rows env) of
            Inl e \<Rightarrow> (Inl e, w)
          | Inr predicted_knowledge \<Rightarrow>
      (let w = background_preload (env_now env) predicted_knowledge w;
           cache_stats = cache_stats\<lparr>phases_completed := phases_completed cache_stats + 1\<rparr>;
           cache_stats = cache_stats\<lparr>items_loaded := items_loaded cache_stats + length predicted_knowledge\<rparr>
       in case load_strategic_insights (env_now env) (strategic_rows env) of
            Inl e \<Rightarrow> (Inl e, w)
          | Inr strategic_knowledge \<Rightarrow>
      (let w = background_preload (env_now env) strategic_knowledge w;
           cache_stats = cache_stats\<lparr>phases_completed := phases_completed cache_stats + 1\<rparr>;
           cache_stats = cache_stats\<lparr>items_loaded := items_loaded cache_stats + length strategic_knowledge\<rparr>;
           cache_stats = cache_stats\<lparr>cache_size := length (warm_cache w)\<rparr>;
           cache_stats = cache_stats\<lparr>warming_time := warming_end env - warming_start env\<rparr>
       in (Inr cache_stats, w))))))"

text \<open>
  \<open>CAGCacheWarmerMCP.warm_cache_for_session\<close>: three phases (core, session, strategic).
  The session search is \<open>search_knowledge(f"{project} " + " ".join(keywords), limit=15)\<close>;
  \<open>pattern_rows\<close> is not read.
\<close>

definition warm_cache_for_session_mcp ::
  "warm_env \<Rightarrow> string \<Rightarrow> user_context option \<Rightarrow> warmer \<Rightarrow> (error + cache_stats) \<times> warmer"
where
  "warm_cache_for_session_mcp env session_id user_context w0 =
     (let w = w0\<lparr>warm_invocations := warm_invocations w0 @ [session_id]\<rparr>;
          user_context =
            (case user_context of
               None \<Rightarrow> \<lparr>ctx_keywords = Some [''CAG'', ''MCP'', ''integration''],
                        ctx_project = Some ''KnowledgePersistence-AI''\<rparr>
             | Some uc \<Rightarrow> uc);
          keywords_used =
            (case ctx_keywords user_context of None \<Rightarrow> [''CAG'', ''implementation''] | Some ks \<Rightarrow> ks);
          project_name =
            (case ctx_project user_context of None \<Rightarrow> ''KnowledgePersistence-AI'' | Some p \<Rightarrow> p);
          cache_stats = \<lparr>phases_completed = 0, items_loaded = 0, cache_size = 0,
                         warming_time = 0, mcp_integrated = Some True\<rparr>
      in case load_core_knowledge_mcp (env_now env) (core_rows env) of
           Inl e \<Rightarrow> (Inl e, w)
         | Inr core_knowledge \<Rightarrow>
      (let w = preload_to_context_mcp (env_now env) core_knowledge w;
           cache_stats = cache_stats\<lparr>phases_completed := phases_completed cache_stats + 1\<rparr>;
           cache_stats = cache_stats\<lparr>items_loaded := items_loaded cache_stats + length core_knowledge\<rparr>
       in case predict_session_knowledge_mcp (env_now env)
                 (session_rows env keywords_used project_name) of
            Inl e \<Rightarrow> (Inl e, w)
          | Inr session_knowledge \<Rightarrow>
      (let w = preload_to_context_mcp (env_now env) session_knowledge w;
           cache_stats = cache_stats\<lparr>phases_completed := phases_completed cache_stats + 1\<rparr>;
           cache_stats = cache_stats\<lparr>items_loaded := items_loaded cache_stats + length session_knowledge\<rparr>
       in case load_strategic_insights_mcp (env_now env) (strategic_rows env) of
            Inl e \<Rightarrow> (Inl e, w)
          | Inr strategic_knowledge \<Rightarrow>
      (let w = preload_to_context_mcp (env_now env) strategic_knowledge w;
           cache_stats = cache_stats\<lparr>phases_completed := phases_completed cache_stats + 1\<rparr>;
           cache_stats = cache_stats\<lparr>items_loaded := items_loaded cache_stats + length strategic_knowledge\<rparr>;
           cache_stats = cache_stats\<lparr>cache_size := length (warm_cache w)\<rparr>;
           cache_stats = cache_stats\<lparr>warming_time := warming_end env - warming_start env\<rparr>
       in (Inr cache_stats, w)))))"

subsection \<open>\<open>get_cached_knowledge\<close>\<close>

text \<open>
  \<open>if layer:\<close> is false for \<open>None\<close> and for the empty string. \<open>xs[:limit]\<close> with a
  negative \<open>limit\<close> drops the last \<open>-limit\<close> elements. The result pairs are the
  dictionaries \<open>{'key': k, **v}\<close>.
\<close>

definition py_take :: "int \<Rightarrow> 'a list \<Rightarrow> 'a list" where
  "py_take limit xs =
     (if limit \<ge> 0 then take (nat limit) xs else take (length xs - nat (- limit)) xs)"

definition in_layer :: "string \<Rightarrow> string \<times> cache_entry \<Rightarrow> bool" where
  "in_layer layer kv = prefix (layer @ '':'') (fst kv)"

definition get_cached_knowledge ::
  "string option \<Rightarrow> int \<Rightarrow> warmer \<Rightarrow> (string \<times> cache_entry) list" where
  "get_cached_knowledge layer limit w =
     (let filtered_cache =
            (case layer of
               None \<Rightarrow> warm_cache w
             | Some l \<Rightarrow> if l \<noteq> [] then filter (in_layer l) (warm_cache w) else warm_cache w);
          sorted_items = sort_key (\<lambda>x. - priority (snd x)) filtered_cache
      in py_take limit sorted_items)"

subsection \<open>The engines\<close>

record warming_record =
  warmed_at :: int
  record_cache_stats :: cache_stats
  record_mcp_integrated :: "bool option"

record performance =
  context_load_time :: real
  total_processing_time :: real
  cache_hit :: bool
  perf_mcp_integrated :: "bool option"

record mcp_integration_info =
  framework_used :: bool
  direct_db_access :: bool
  standardized_access :: bool

record envelope =
  env_query :: string
  env_session_id :: string
  context_loaded :: bool
  context_size_tokens :: real
  cached_knowledge_items :: nat
  performance :: performance
  context_layers :: "(string \<times> bool) list option"
  mcp_integration :: "mcp_integration_info option"
  full_context :: string

record metrics =
  cache_hits :: nat
  cache_misses :: nat
  average_response_time :: real
  total_queries :: nat

record metrics_mcp = metrics +
  mcp_calls :: nat

record 'm engine =
  cache_warmer :: warmer
  session_cache_warmed :: "string \<rightharpoonup> warming_record"
  performance_metrics :: 'm

definition init_engine :: "metrics engine" where
  "init_engine = \<lparr>cache_warmer = init_warmer, session_cache_warmed = Map.empty,
     performance_metrics = \<lparr>cache_hits = 0, cache_misses = 0, average_response_time = 0,
       total_queries = 0\<rparr>\<rparr>"

definition init_engine_mcp :: "metrics_mcp engine" where
  "init_engine_mcp = \<lparr>cache_warmer = init_warmer, session_cache_warmed = Map.empty,
     performance_metrics = \<lparr>cache_hits = 0, cache_misses = 0, average_response_time = 0,
       total_queries = 0, mcp_calls = 0\<rparr>\<rparr>"

text \<open>
  What one \<open>process_query\<close> reads from outside: the warmer's inputs, four readings of
  \<open>time.time()\<close>, and the layer bodies that the loaders of \<open>load_context_for_query\<close>
  produce for the query and the session (each loader returns a string, a diagnostic one
  when its fetch fails), before \<open>compile_context\<close> joins them.
\<close>

record query_env =
  warm :: warm_env
  query_start :: real
  context_start :: real
  context_end :: real
  query_end :: real
  loaded_layers :: "string \<Rightarrow> string \<Rightarrow> (string \<rightharpoonup> string)"

definition ensure_cache_warmed ::
  "warm_env \<Rightarrow> string \<Rightarrow> user_context option \<Rightarrow> 'm engine \<Rightarrow> (error + bool) \<times> 'm engine"
where
  "ensure_cache_warmed env session_id user_context eng =
     (if session_cache_warmed eng session_id \<noteq> None then (Inr True, eng)
      else
        let user_context =
              (case user_context of
                 None \<Rightarrow> \<lparr>ctx_keywords = Some [''CAG'', ''implementation'', ''knowledge''],
                          ctx_project = Some ''KnowledgePersistence-AI''\<rparr>
               | Some uc \<Rightarrow> uc)
        in case warm_cache_for_session env session_id (Some user_context) (cache_warmer eng) of
             (Inl e, w) \<Rightarrow> (Inl e, eng\<lparr>cache_warmer := w\<rparr>)
           | (Inr cache_stats, w) \<Rightarrow>
               (Inr True,
                eng\<lparr>cache_warmer := w,
                    session_cache_warmed := (session_cache_warmed eng)(session_id \<mapsto>
                      \<lparr>warmed_at = env_now env, record_cache_stats = cache_stats,
                       record_mcp_integrated = None\<rparr>)\<rparr>))"

definition ensure_cache_warmed_mcp ::
  "warm_env \<Rightarrow> string \<Rightarrow> user_context option \<Rightarrow> 'm engine \<Rightarrow> (error + bool) \<times> 'm engine"
where
  "ensure_cache_warmed_mcp env session_id user_context eng =
     (if session_cache_warmed eng session_id \<noteq> None then (Inr True, eng)
      else
        let user_context =
              (case user_context of
                 None \<Rightarrow> \<lparr>ctx_keywords = Some [''CAG'', ''MCP'', ''integration''],
                          ctx_project = Some ''KnowledgePersistence-AI''\<rparr>
               | Some uc \<Rightarrow> uc)
        in case warm_cache_for_session_mcp env session_id (Some user_context) (cache_warmer eng) of
             (Inl e, w) \<Rightarrow> (Inl e, eng\<lparr>cache_warmer := w\<rparr>)
           | (Inr cache_stats, w) \<Rightarrow>
               (Inr True,
                eng\<lparr>cache_warmer := w,
                    session_cache_warmed := (session_cache_warmed eng)(session_id \<mapsto>
                      \<lparr>warmed_at = env_now env, record_cache_stats = cache_stats,
                       record_mcp_integrated = Some True\<rparr>)\<rparr>))"

text \<open>\<open>_analyze_context_layers\<close>: \<open>marker in context\<close> is a substring test.\<close>

definition analyze_context_layers :: "string \<Rightarrow> (string \<times> bool) list" where
  "analyze_context_layers context =
     map (\<lambda>layer. (layer_value layer, sublist (layer_header (layer_value layer)) context))
       ContextLayer"

text \<open>\<open>_update_performance_metrics\<close> of \<open>CAGEngine\<close> and of \<open>CAGEngineMCP\<close>.\<close>

definition update_performance_metrics ::
  "performance \<Rightarrow> 'a metrics_scheme \<Rightarrow> 'a metrics_scheme" where
  "update_performance_metrics perf m0 =
     (let m = m0\<lparr>total_queries := total_queries m0 + 1\<rparr>;
          m = (if cache_hit perf then m\<lparr>cache_hits := cache_hits m + 1\<rparr>
               else m\<lparr>cache_misses := cache_misses m + 1\<rparr>);
          current_avg = average_response_time m;
          total = total_queries m;
          new_time = total_processing_time perf
      in m\<lparr>average_response_time := (current_avg * real (total - 1) + new_time) / real total\<rparr>)"

definition update_performance_metrics_mcp :: "performance \<Rightarrow> metrics_mcp \<Rightarrow> metrics_mcp" where
  "update_performance_metrics_mcp perf m0 =
     (let m = m0\<lparr>total_queries := total_queries m0 + 1\<rparr>;
          m = m\<lparr>mcp_calls := mcp_calls m + 5\<rparr>;
          m = (if cache_hit perf then m\<lparr>cache_hits := cache_hits m + 1\<rparr>
               else m\<lparr>cache_misses := cache_misses m + 1\<rparr>);
          current_avg = average_response_time m;
          total = total_queries m;
          new_time = total_processing_time perf
      in m\<lparr>average_response_time := (current_avg * real (total - 1) + new_time) / real total\<rparr>)"

text \<open>
  \<open>CAGEngine.process_query\<close>. \<open>cache_hit\<close> is \<open>session_id in self.session_cache_warmed\<close>,
  evaluated while the response is built, after \<open>ensure_cache_warmed\<close> has returned.
\<close>

definition process_query ::
  "query_env \<Rightarrow> string \<Rightarrow> string \<Rightarrow> user_context option \<Rightarrow> metrics engine
     \<Rightarrow> (error + envelope) \<times> metrics engine"
where
  "process_query env query session_id user_context eng0 =
     (case ensure_cache_warmed (warm env) session_id user_context eng0 of
        (Inl e, eng) \<Rightarrow> (Inl e, eng)
      | (Inr _, eng) \<Rightarrow>
          (let context = compile_context (loaded_layers env query session_id);
               context_time = context_end env - context_start env;
               response =
                 \<lparr>env_query = query, env_session_id = session_id, context_loaded = True,
                  context_size_tokens = count_tokens context,
                  cached_knowledge_items = length (warm_cache (cache_warmer eng)),
                  performance =
                    \<lparr>context_load_time = context_time,
                     total_processing_time = query_end env - query_start env,
                     cache_hit = (session_cache_warmed eng session_id \<noteq> None),
                     perf_mcp_integrated = None\<rparr>,
                  context_layers = Some (analyze_context_layers context),
                  mcp_integration = None,
                  full_context = context\<rparr>
           in (Inr response,
               eng\<lparr>performance_metrics :=
                     update_performance_metrics (performance response) (performance_metrics eng)\<rparr>)))"

text \<open>
  \<open>CAGEngineMCP.process_query\<close>. The write-back \<open>_store_interaction_via_mcp\<close> that
  follows the metrics update is inside a \<open>try\<close> and changes nothing of the engine.
\<close>

definition process_query_mcp ::
  "query_env \<Rightarrow> string \<Rightarrow> string \<Rightarrow> user_context option \<Rightarrow> metrics_mcp engine
     \<Rightarrow> (error + envelope) \<times> metrics_mcp engine"
where
  "process_query_mcp env query session_id user_context eng0 =
     (case ensure_cache_warmed_mcp (warm env) session_id user_context eng0 of
        (Inl e, eng) \<Rightarrow> (Inl e, eng)
      | (Inr _, eng) \<Rightarrow>
          (let context = compile_context_mcp (loaded_layers env query session_id);
               context_time = context_end env - context_start env;
               response =
                 \<lparr>env_query = query, env_session_id = session_id, context_loaded = True,
                  context_size_tokens = count_tokens context,
                  cached_knowledge_items = length (warm_cache (cache_warmer eng)),
                  performance =
                    \<lparr>context_load_time = context_time,
                     total_processing_time = query_end env - query_start env,
                     cache_hit = (session_cache_warmed eng session_id \<noteq> None),
                     perf_mcp_integrated = Some True\<rparr>,
                  context_layers = None,
                  mcp_integration =
                    Some \<lparr>framework_used = True, direct_db_access = False,
                          standardized_access = True\<rparr>,
                  full_context = context\<rparr>
           in (Inr response,
               eng\<lparr>performance_metrics :=
                     update_performance_metrics_mcp (performance response)
                       (performance_metrics eng)\<rparr>)))"

text \<open>
  \<open>CAGEngine.warm_domain_cache\<close>: the whole body is inside \<open>try ... except Exception\<close>,
  and the cache is written only after every row has been converted.
\<close>

record domain_env =
  domain_now :: int
  domain_rows :: "string \<Rightarrow> error + knowledge_item list"

datatype domain_result = Domain_loaded string nat string | Domain_failed string error

definition warm_domain_cache ::
  "domain_env \<Rightarrow> string \<Rightarrow> string \<Rightarrow> 'm engine \<Rightarrow> domain_result \<times> 'm engine" where
  "warm_domain_cache env domain prio eng =
     (case domain_rows env domain of
        Inl e \<Rightarrow> (Domain_failed domain e, eng)
      | Inr results \<Rightarrow>
          (case build_items (\<lambda>item. cache_item_of (calculate_cache_priority (domain_now env) item)
                                 ''domain'' None item) results of
             Inl e \<Rightarrow> (Domain_failed domain e, eng)
           | Inr domain_knowledge \<Rightarrow>
               (Domain_loaded domain (length domain_knowledge) prio,
                eng\<lparr>cache_warmer :=
                      preload_to_context (domain_now env) domain_knowledge (cache_warmer eng)\<rparr>)))"

subsection \<open>Sequences of calls\<close>

text \<open>
  A caller's view of an engine: a list of calls, each with what the outside world gives
  during that call. \<open>run_queries\<close> collects the envelopes of the calls that returned; a
  call that raised leaves only its effect on the engine.
\<close>

record query_call =
  call_env :: query_env
  call_query :: string
  call_session :: string
  call_context :: "user_context option"



text \<open>
  The operations that can write the warm cache of an engine: a query, a session warming
  called on the engine's warmer itself, and (direct-store engine only) a domain warming.
\<close>

datatype operation =
    Query query_call
  | Session_warming warm_env string "user_context option"
  | Domain_warming domain_env string string

fun apply_operation :: "operation \<Rightarrow> metrics engine \<Rightarrow> metrics engine" where
  "apply_operation (Query c) eng =
     snd (process_query (call_env c) (call_query c) (call_session c) (call_context c) eng)"
| "apply_operation (Session_warming env session_id user_context) eng =
     eng\<lparr>cache_warmer :=
           snd (warm_cache_for_session env session_id user_context (cache_warmer eng))\<rparr>"
| "apply_operation (Domain_warming env domain prio) eng =
     snd (warm_domain_cache env domain prio eng)"

definition run_operations :: "operation list \<Rightarrow> metrics engine \<Rightarrow> metrics engine" where
  "run_operations ops eng = foldl (\<lambda>e op. apply_operation op e) eng ops"

datatype operation_mcp =
    Query_mcp query_call
  | Session_warming_mcp warm_env string "user_context option"

fun apply_operation_mcp :: "operation_mcp \<Rightarrow> metrics_mcp engine \<Rightarrow> metrics_mcp engine" where
  "apply_operation_mcp (Query_mcp c) eng =
     snd (process_query_mcp (call_env c) (call_query c) (call_session c) (call_context c) eng)"
| "apply_operation_mcp (Session_warming_mcp env session_id user_context) eng =
     eng\<lparr>cache_warmer :=
           snd (warm_cache_for_session_mcp env session_id user_context (cache_warmer eng))\<rparr>"

definition run_operations_mcp ::
  "operation_mcp list \<Rightarrow> metrics_mcp engine \<Rightarrow> metrics_mcp engine" where
  "run_operations_mcp ops eng = foldl (\<lambda>e op. apply_operation_mcp op e) eng ops"

subsection \<open>Notions used to state the properties\<close>

text \<open>A layer is emitted when its name is a key of the context with a non-empty body.\<close>

definition non_empty_layer :: "(string \<rightharpoonup> string) \<Rightarrow> context_layer \<Rightarrow> bool" where
  "non_empty_layer context layer =
     (case context (layer_value layer) of None \<Rightarrow> False | Some body \<Rightarrow> body \<noteq> [])"


definition effective_context_mcp :: "user_context option \<Rightarrow> user_context" where
  "effective_context_mcp user_context =
     (case user_context of
        None \<Rightarrow> \<lparr>ctx_keywords = Some [''CAG'', ''MCP'', ''integration''],
                 ctx_project = Some ''KnowledgePersistence-AI''\<rparr>
      | Some uc \<Rightarrow> uc)"





text \<open>The user context after the defaults of \<open>CAGEngine.ensure_cache_warmed\<close>.\<close>

definition engine_context :: "user_context option \<Rightarrow> user_context" where
  "engine_context user_context =
     (case user_context of
        None \<Rightarrow> \<lparr>ctx_keywords = Some [''CAG'', ''implementation'', ''knowledge''],
                 ctx_project = Some ''KnowledgePersistence-AI''\<rparr>
      | Some uc \<Rightarrow> uc)"

text \<open>Every entry of the warm cache has a priority at or above the warmer's threshold.\<close>

definition gated :: "warmer \<Rightarrow> bool" where
  "gated w \<longleftrightarrow> (\<forall>kv \<in> set (warm_cache w). priority (snd kv) \<ge> cache_priority_threshold w)"

subsection \<open>Concrete inputs\<close>

definition example_item :: "int \<Rightarrow> knowledge_item" where
  "example_item created =
     \<lparr>item_id = ''k1'', knowledge_type = Some ''procedural'', category = Some ''cag'',
      title = ''Warming'', content = ''How the cache is warmed'', created_at = Some created,
      importance_score = Some 40, access_count = Some 5\<rparr>"

definition factual_item :: knowledge_item where
  "factual_item =
     \<lparr>item_id = ''k2'', knowledge_type = Some ''factual'', category = Some ''notes'',
      title = ''Fact'', content = ''A fact'', created_at = Some 0,
      importance_score = None, access_count = None\<rparr>"

definition empty_store :: warm_env where
  "empty_store =
     \<lparr>env_now = 0, warming_start = 0, warming_end = 1, core_rows = Inr [],
      session_rows = (\<lambda>ks p. Inr []), pattern_rows = Inr [], strategic_rows = Inr []\<rparr>"

definition small_store :: warm_env where
  "small_store = empty_store\<lparr>core_rows := Inr [example_item 0],
     strategic_rows := Inr [example_item 0]\<rparr>"



definition example_call :: "warm_env \<Rightarrow> string \<Rightarrow> query_call" where
  "example_call store session_id =
     \<lparr>call_env = \<lparr>warm = store, query_start = 0, context_start = 1, context_end = 2,
                   query_end = 4,
                   loaded_layers = (\<lambda>q s. [''system'' \<mapsto> ''CAG assistant''])\<rparr>,
      call_query = ''How do I implement CAG?'', call_session = session_id,
      call_context = None\<rparr>"

definition domain_cache_item :: "string \<Rightarrow> cache_item" where
  "domain_cache_item i =
     \<lparr>ci_id = i, ci_knowledge_type = ''procedural'', ci_category = ''cag'', ci_title = ''t'',
      ci_content = ''c'', ci_created_at = 0, cache_priority = 0.5, cache_layer = ''domain'',
      prediction_confidence = None\<rparr>"

definition eleven_domain_items :: "cache_item list" where
  "eleven_domain_items =
     map domain_cache_item
       [''a'', ''b'', ''c'', ''d'', ''e'', ''f'', ''g'', ''h'', ''i'', ''j'', ''k'']"

definition low_priority_item :: cache_item where
  "low_priority_item = (domain_cache_item ''z'')\<lparr>cache_priority := 0.1\<rparr>"

definition eleven_entry_warmer :: warmer where
  "eleven_entry_warmer = preload_to_context 0 eleven_domain_items init_warmer"

section \<open>Properties\<close>

subsection \<open>Scoring and classification\<close>

lemmas scorer_defs = calculate_cache_priority_def calculate_cache_priority_mcp_def days_old_def
  microseconds_per_day_def dict_get_def strategic_value_table_def type_weights_def Let_def

text \<open>
  C5. The item \<open>{type: procedural, importance_score: 40, created_at: now, access_count: 5}\<close>,
  scored at any time less than a day after its \<open>created_at\<close>, gets the priority
  \<open>0.805\<close> in Mode A and \<open>0.73\<close> in Mode B, and both classifiers put it in the
  layer \<open>domain\<close>.
\<close>

theorem scenario_priorities_and_layer:
  assumes "created \<le> now" and "now - created < microseconds_per_day"
  shows "calculate_cache_priority now (example_item created) = 0.805
   \<and> calculate_cache_priority_mcp now (example_item created) = 0.73
   \<and> determine_cache_layer (example_item created) = ''domain''
   \<and> determine_cache_layer_mcp (example_item created) = ''domain''"
proof -
  have "days_old now created = 0"
    using assms by (simp add: days_old_def microseconds_per_day_def)
  then show ?thesis
    by (simp add: calculate_cache_priority_def calculate_cache_priority_mcp_def dict_get_def
        strategic_value_table_def type_weights_def Let_def example_item_def
        determine_cache_layer_def determine_cache_layer_mcp_def)
qed

theorem scenario_priorities_and_layer_witness:
  "(1000::int) \<le> 1500 \<and> (1500::int) - 1000 < microseconds_per_day
   \<and> calculate_cache_priority 1500 (example_item 1000) = 0.805
   \<and> calculate_cache_priority_mcp 1500 (example_item 1000) = 0.73
   \<and> determine_cache_layer (example_item 1000) = ''domain''
   \<and> determine_cache_layer_mcp (example_item 1000) = ''domain''"
proof -
  have h1: "(1000::int) \<le> 1500" by simp
  have h2: "(1500::int) - 1000 < microseconds_per_day"
    by (simp add: microseconds_per_day_def)
  from scenario_priorities_and_layer [OF h1 h2] h1 h2 show ?thesis by blast
qed

text \<open>
  C9, as the claim states it, fails: the scorer reads the clock, so the same item scored
  at two times fifteen days apart gets two different priorities, in both modes.
\<close>

theorem priority_depends_on_clock:
  "calculate_cache_priority 0 factual_item \<noteq>
     calculate_cache_priority (15 * microseconds_per_day) factual_item
   \<and> calculate_cache_priority_mcp 0 factual_item \<noteq>
     calculate_cache_priority_mcp (15 * microseconds_per_day) factual_item"
  by (simp add: scorer_defs factual_item_def)

text \<open>
  C9, amended. The scorer is a function of the item and of the item's age in whole days
  at the time of the call: two calls with the same item return the same priority whenever
  that age is the same at both calls, and always when the item has no \<open>created_at\<close>.
\<close>

theorem priority_same_age_same_score:
  assumes "case created_at item of None \<Rightarrow> True | Some c \<Rightarrow> days_old now1 c = days_old now2 c"
  shows "calculate_cache_priority now1 item = calculate_cache_priority now2 item
       \<and> calculate_cache_priority_mcp now1 item = calculate_cache_priority_mcp now2 item"
proof (cases "created_at item")
  case None
  then show ?thesis
    by (simp add: calculate_cache_priority_def calculate_cache_priority_mcp_def days_old_def)
next
  case (Some c)
  with assms have "days_old now1 c = days_old now2 c" by simp
  with Some show ?thesis
    by (simp add: calculate_cache_priority_def calculate_cache_priority_mcp_def)
qed

theorem priority_same_age_same_score_witness:
  "days_old 0 0 = days_old 3600000000 0
   \<and> calculate_cache_priority 0 factual_item = calculate_cache_priority 3600000000 factual_item
   \<and> calculate_cache_priority_mcp 0 factual_item
       = calculate_cache_priority_mcp 3600000000 factual_item"
proof -
  have h: "case created_at factual_item of None \<Rightarrow> True
           | Some c \<Rightarrow> days_old 0 c = days_old 3600000000 c"
    by (simp add: factual_item_def days_old_def microseconds_per_day_def)
  have d: "days_old 0 0 = days_old 3600000000 0"
    by (simp add: days_old_def microseconds_per_day_def)
  from priority_same_age_same_score [OF h] d show ?thesis by simp
qed

subsection \<open>Token estimator\<close>

text \<open>
  C7 at the input \<open>hello\<close>: one word, and the estimator returns \<open>1.3\<close>, which is no
  integer, where the claim says \<open>round(1 \<cdot> 1.3) = 1\<close>.
\<close>

theorem count_tokens_unrounded:
  "count_tokens ''hello'' = 13 / 10 \<and> (\<forall>n::int. count_tokens ''hello'' \<noteq> real_of_int n)"
proof -
  have v: "count_tokens ''hello'' = 13 / 10"
    by (simp add: count_tokens_def py_split_def is_space_def)
  have nz: "\<forall>n::int. (13::real) / 10 \<noteq> real_of_int n"
  proof
    fix n :: int
    show "(13::real) / 10 \<noteq> real_of_int n"
    proof
      assume "(13::real) / 10 = real_of_int n"
      then have "real_of_int (10 * n) = real_of_int 13" by simp
      then have "10 * n = 13" by (simp only: of_int_eq_iff)
      then show False by presburger
    qed
  qed
  show ?thesis unfolding v using nz by blast
qed

subsection \<open>Context compilation\<close>

lemma compile_loop_layers:
  "compile_loop hdr context layers compiled =
     compiled @ concat (map (\<lambda>l. [hdr (layer_value l), the (context (layer_value l)), []])
                          (filter (non_empty_layer context) layers))"
  by (induction layers arbitrary: compiled)
     (auto simp: non_empty_layer_def Let_def split: option.splits)

lemma upper_layer_names:
  "map (upper \<circ> layer_value) ContextLayer =
     [''SYSTEM'', ''PROJECT'', ''SESSION'', ''DOMAIN'', ''EXPERIENCE'', ''STRATEGIC'',
      ''DYNAMIC'', ''RESPONSE'']"
  by (simp add: ContextLayer_def upper_def upper_char_def dict_get_def)

text \<open>
  C6, as the claim states it, fails for the tool-invocation variant: its header line is
  \<open>=== SYSTEM CONTEXT (MCP-INTEGRATED) ===\<close>, not \<open>=== SYSTEM CONTEXT ===\<close>.
\<close>

theorem compile_context_mcp_header_differs:
  "compile_context_mcp [''system'' \<mapsto> ''CAG assistant''] =
     ''=== SYSTEM CONTEXT (MCP-INTEGRATED) ==='' @ [CHR 0x0A] @ ''CAG assistant'' @ [CHR 0x0A]
   \<and> compile_context_mcp [''system'' \<mapsto> ''CAG assistant''] \<noteq>
     ''=== SYSTEM CONTEXT ==='' @ [CHR 0x0A] @ ''CAG assistant'' @ [CHR 0x0A]
   \<and> compile_context [''system'' \<mapsto> ''CAG assistant''] =
     ''=== SYSTEM CONTEXT ==='' @ [CHR 0x0A] @ ''CAG assistant'' @ [CHR 0x0A]"
  by (simp add: compile_context_mcp_def compile_context_def ContextLayer_def layer_header_mcp_def
      layer_header_def upper_def upper_char_def dict_get_def)

text \<open>
  C6, amended. The compiled context is the lines of the emitted layers joined by
  newlines: for each layer of the context with a non-empty body, in the order system,
  project, session, domain, experience, strategic, dynamic, response, the header line,
  the body and an empty line. The header is \<open>=== <LAYER> CONTEXT ===\<close> in the
  direct-store variant and \<open>=== <LAYER> CONTEXT (MCP-INTEGRATED) ===\<close> in the
  tool-invocation variant, the layer name in upper case.
\<close>

theorem compile_context_format:
  "compile_context context =
     join [CHR 0x0A]
       (concat (map (\<lambda>l. [''=== '' @ upper (layer_value l) @ '' CONTEXT ==='',
                           the (context (layer_value l)), ''''])
                  (filter (non_empty_layer context) ContextLayer)))
   \<and> compile_context_mcp context =
     join [CHR 0x0A]
       (concat (map (\<lambda>l. [''=== '' @ upper (layer_value l) @ '' CONTEXT (MCP-INTEGRATED) ==='',
                           the (context (layer_value l)), ''''])
                  (filter (non_empty_layer context) ContextLayer)))
   \<and> ContextLayer = [SYSTEM, PROJECT, SESSION, DOMAIN, EXPERIENCE, STRATEGIC, DYNAMIC, RESPONSE]
   \<and> map (upper \<circ> layer_value) ContextLayer =
       [''SYSTEM'', ''PROJECT'', ''SESSION'', ''DOMAIN'', ''EXPERIENCE'', ''STRATEGIC'',
        ''DYNAMIC'', ''RESPONSE'']"
proof -
  have a: "compile_context context =
     join [CHR 0x0A]
       (concat (map (\<lambda>l. [''=== '' @ upper (layer_value l) @ '' CONTEXT ==='',
                           the (context (layer_value l)), ''''])
                  (filter (non_empty_layer context) ContextLayer)))"
    unfolding compile_context_def compile_loop_layers layer_header_def by simp
  have b: "compile_context_mcp context =
     join [CHR 0x0A]
       (concat (map (\<lambda>l. [''=== '' @ upper (layer_value l) @ '' CONTEXT (MCP-INTEGRATED) ==='',
                           the (context (layer_value l)), ''''])
                  (filter (non_empty_layer context) ContextLayer)))"
    unfolding compile_context_mcp_def compile_loop_layers layer_header_mcp_def by simp
  show ?thesis using a b upper_layer_names ContextLayer_def by blast
qed

theorem compile_context_format_witness:
  "compile_context
     [''system'' \<mapsto> ''CAG assistant'', ''dynamic'' \<mapsto> ''x'', ''session'' \<mapsto> ''''] =
     ''=== SYSTEM CONTEXT ==='' @ [CHR 0x0A] @ ''CAG assistant'' @ [CHR 0x0A, CHR 0x0A]
       @ ''=== DYNAMIC CONTEXT ==='' @ [CHR 0x0A] @ ''x'' @ [CHR 0x0A]"
  using compile_context_format
    [of "[''system'' \<mapsto> ''CAG assistant'', ''dynamic'' \<mapsto> ''x'', ''session'' \<mapsto> '''']"]
  by (simp add: ContextLayer_def non_empty_layer_def upper_def upper_char_def dict_get_def)

subsection \<open>The warm cache is gated by the threshold\<close>

lemma set_dict_set: "set (dict_set d k v) \<subseteq> insert (k, v) (set d)"
  by (induction d) (auto split: if_splits)

lemma preload_fields [simp]:
  "cache_priority_threshold (preload_to_context now items w) = cache_priority_threshold w"
  "pattern_recognizer (preload_to_context now items w) = pattern_recognizer w"
  "warm_invocations (preload_to_context now items w) = warm_invocations w"
  "max_cache_items (preload_to_context now items w) = max_cache_items w"
  by (induction items arbitrary: w) auto

lemma preload_mcp_fields [simp]:
  "cache_priority_threshold (preload_to_context_mcp now items w) = cache_priority_threshold w"
  "pattern_recognizer (preload_to_context_mcp now items w) = pattern_recognizer w"
  "warm_invocations (preload_to_context_mcp now items w) = warm_invocations w"
  "max_cache_items (preload_to_context_mcp now items w) = max_cache_items w"
  by (induction items arbitrary: w) auto

lemma gated_insert:
  assumes "gated w" and "priority e \<ge> cache_priority_threshold w"
  shows "gated (w\<lparr>warm_cache := dict_set (warm_cache w) k e\<rparr>)"
proof -
  have "kv \<in> set (dict_set (warm_cache w) k e) \<Longrightarrow> kv = (k, e) \<or> kv \<in> set (warm_cache w)" for kv
    using set_dict_set [of "warm_cache w" k e] by auto
  with assms show ?thesis unfolding gated_def by fastforce
qed

lemma preload_gated: "gated w \<Longrightarrow> gated (preload_to_context now items w)"
proof (induction items arbitrary: w)
  case Nil
  then show ?case by simp
next
  case (Cons item items)
  show ?case
  proof (cases "cache_priority item \<ge> cache_priority_threshold w")
    case True
    then show ?thesis using Cons.IH [OF gated_insert [OF Cons.prems]] by simp
  next
    case False
    then show ?thesis using Cons.IH [OF Cons.prems] by simp
  qed
qed

lemma preload_mcp_gated: "gated w \<Longrightarrow> gated (preload_to_context_mcp now items w)"
proof (induction items arbitrary: w)
  case Nil
  then show ?case by simp
next
  case (Cons item items)
  show ?case
  proof (cases "cache_priority item \<ge> cache_priority_threshold w")
    case True
    then show ?thesis using Cons.IH [OF gated_insert [OF Cons.prems]] by simp
  next
    case False
    then show ?thesis using Cons.IH [OF Cons.prems] by simp
  qed
qed

lemma gated_trace [simp]: "gated (w\<lparr>warm_invocations := t\<rparr>) = gated w"
  by (simp add: gated_def)

lemma warm_gated:
  "gated w \<Longrightarrow> gated (snd (warm_cache_for_session env sid uc w))"
  unfolding warm_cache_for_session_def Let_def background_preload_def
  by (auto split: sum.splits intro!: preload_gated)

lemma warm_threshold [simp]:
  "cache_priority_threshold (snd (warm_cache_for_session env sid uc w)) = cache_priority_threshold w"
  unfolding warm_cache_for_session_def Let_def background_preload_def
  by (auto split: sum.splits)

lemma warm_mcp_gated:
  "gated w \<Longrightarrow> gated (snd (warm_cache_for_session_mcp env sid uc w))"
  unfolding warm_cache_for_session_mcp_def Let_def
  by (auto split: sum.splits intro!: preload_mcp_gated)

lemma warm_mcp_threshold [simp]:
  "cache_priority_threshold (snd (warm_cache_for_session_mcp env sid uc w)) = cache_priority_threshold w"
  unfolding warm_cache_for_session_mcp_def Let_def
  by (auto split: sum.splits)

lemma ensure_warmer:
  "cache_warmer (snd (ensure_cache_warmed env sid uc eng)) =
     (if session_cache_warmed eng sid \<noteq> None then cache_warmer eng
      else snd (warm_cache_for_session env sid (Some (engine_context uc)) (cache_warmer eng)))"
  unfolding ensure_cache_warmed_def Let_def engine_context_def
  by (auto split: prod.splits sum.splits)

lemma ensure_mcp_warmer:
  "cache_warmer (snd (ensure_cache_warmed_mcp env sid uc eng)) =
     (if session_cache_warmed eng sid \<noteq> None then cache_warmer eng
      else snd (warm_cache_for_session_mcp env sid (Some (effective_context_mcp uc))
                 (cache_warmer eng)))"
  unfolding ensure_cache_warmed_mcp_def Let_def effective_context_mcp_def
  by (auto split: prod.splits sum.splits)

lemma ensure_gated:
  "gated (cache_warmer eng) \<Longrightarrow> gated (cache_warmer (snd (ensure_cache_warmed env sid uc eng)))"
  by (simp add: ensure_warmer warm_gated)

lemma ensure_threshold:
  "cache_priority_threshold (cache_warmer (snd (ensure_cache_warmed env sid uc eng)))
     = cache_priority_threshold (cache_warmer eng)"
  by (simp add: ensure_warmer)

lemma ensure_mcp_gated:
  "gated (cache_warmer eng) \<Longrightarrow> gated (cache_warmer (snd (ensure_cache_warmed_mcp env sid uc eng)))"
  by (simp add: ensure_mcp_warmer warm_mcp_gated)

lemma ensure_mcp_threshold:
  "cache_priority_threshold (cache_warmer (snd (ensure_cache_warmed_mcp env sid uc eng)))
     = cache_priority_threshold (cache_warmer eng)"
  by (simp add: ensure_mcp_warmer)

lemma process_query_warmer:
  "cache_warmer (snd (process_query env q sid uc eng))
     = cache_warmer (snd (ensure_cache_warmed (warm env) sid uc eng))"
  unfolding process_query_def Let_def by (auto split: sum.splits prod.splits)

lemma process_query_mcp_warmer:
  "cache_warmer (snd (process_query_mcp env q sid uc eng))
     = cache_warmer (snd (ensure_cache_warmed_mcp (warm env) sid uc eng))"
  unfolding process_query_mcp_def Let_def by (auto split: sum.splits prod.splits)

lemma domain_gated:
  "gated (cache_warmer eng) \<Longrightarrow> gated (cache_warmer (snd (warm_domain_cache env d p eng)))"
  unfolding warm_domain_cache_def by (auto split: sum.splits intro: preload_gated)

lemma domain_threshold:
  "cache_priority_threshold (cache_warmer (snd (warm_domain_cache env d p eng)))
     = cache_priority_threshold (cache_warmer eng)"
  unfolding warm_domain_cache_def by (auto split: sum.splits)

lemma apply_operation_gated:
  "gated (cache_warmer eng) \<Longrightarrow> gated (cache_warmer (apply_operation op eng))"
  by (cases op) (simp_all add: process_query_warmer ensure_gated domain_gated warm_gated)

lemma apply_operation_threshold:
  "cache_priority_threshold (cache_warmer (apply_operation op eng))
     = cache_priority_threshold (cache_warmer eng)"
  by (cases op) (simp_all add: process_query_warmer ensure_threshold domain_threshold)

lemma run_operations_gated:
  "gated (cache_warmer eng) \<Longrightarrow> gated (cache_warmer (run_operations ops eng))"
  unfolding run_operations_def
  by (induction ops arbitrary: eng) (simp_all add: apply_operation_gated)

lemma run_operations_threshold:
  "cache_priority_threshold (cache_warmer (run_operations ops eng))
     = cache_priority_threshold (cache_warmer eng)"
  unfolding run_operations_def
  by (induction ops arbitrary: eng) (simp_all add: apply_operation_threshold)

lemma apply_operation_mcp_gated:
  "gated (cache_warmer eng) \<Longrightarrow> gated (cache_warmer (apply_operation_mcp op eng))"
  by (cases op) (simp_all add: process_query_mcp_warmer ensure_mcp_gated warm_mcp_gated)

lemma apply_operation_mcp_threshold:
  "cache_priority_threshold (cache_warmer (apply_operation_mcp op eng))
     = cache_priority_threshold (cache_warmer eng)"
  by (cases op) (simp_all add: process_query_mcp_warmer ensure_mcp_threshold)

lemma run_operations_mcp_gated:
  "gated (cache_warmer eng) \<Longrightarrow> gated (cache_warmer (run_operations_mcp ops eng))"
  unfolding run_operations_mcp_def
  by (induction ops arbitrary: eng) (simp_all add: apply_operation_mcp_gated)

lemma run_operations_mcp_threshold:
  "cache_priority_threshold (cache_warmer (run_operations_mcp ops eng))
     = cache_priority_threshold (cache_warmer eng)"
  unfolding run_operations_mcp_def
  by (induction ops arbitrary: eng) (simp_all add: apply_operation_mcp_threshold)

lemma init_gated: "gated init_warmer" "cache_priority_threshold init_warmer = 0.3"
  by (simp_all add: gated_def init_warmer_def)

text \<open>
  C3. Start from a freshly constructed engine of either variant and run any sequence of
  queries, session warmings and (direct-store engine) domain warmings, whatever the
  store returns and whether or not a call raises. Every entry then in the warm cache has
  a priority at or above the warmer's threshold, which is still \<open>0.3\<close>; and
  \<open>preload_to_context\<close> leaves the warmer as it is when the candidate's priority is
  below the threshold.
\<close>

theorem cache_entries_above_threshold:
  "(\<forall>kv \<in> set (warm_cache (cache_warmer (run_operations ops init_engine))).
      priority (snd kv) \<ge> cache_priority_threshold (cache_warmer (run_operations ops init_engine)))
   \<and> cache_priority_threshold (cache_warmer (run_operations ops init_engine)) = 0.3
   \<and> (\<forall>kv \<in> set (warm_cache (cache_warmer (run_operations_mcp opsm init_engine_mcp))).
      priority (snd kv)
        \<ge> cache_priority_threshold (cache_warmer (run_operations_mcp opsm init_engine_mcp)))
   \<and> cache_priority_threshold (cache_warmer (run_operations_mcp opsm init_engine_mcp)) = 0.3
   \<and> (cache_priority item < cache_priority_threshold w \<longrightarrow>
        preload_to_context now [item] w = w \<and> preload_to_context_mcp now [item] w = w)"
proof -
  have a: "gated (cache_warmer (run_operations ops init_engine))"
    by (rule run_operations_gated) (simp add: init_engine_def init_gated)
  have b: "gated (cache_warmer (run_operations_mcp opsm init_engine_mcp))"
    by (rule run_operations_mcp_gated) (simp add: init_engine_mcp_def init_gated)
  have c: "cache_priority_threshold (cache_warmer (run_operations ops init_engine)) = 0.3"
    by (simp add: run_operations_threshold init_engine_def init_gated)
  have d: "cache_priority_threshold (cache_warmer (run_operations_mcp opsm init_engine_mcp)) = 0.3"
    by (simp add: run_operations_mcp_threshold init_engine_mcp_def init_gated)
  have e: "cache_priority item < cache_priority_threshold w \<longrightarrow>
        preload_to_context now [item] w = w \<and> preload_to_context_mcp now [item] w = w"
    by simp
  from a b c d e show ?thesis unfolding gated_def by blast
qed

lemma small_cache:
  "map fst (warm_cache (cache_warmer
     (run_operations [Query (example_call small_store ''S1'')] init_engine)))
    = [''domain:k1'', ''strategic:k1'']"
  by code_simp

theorem cache_entries_above_threshold_witness:
  "warm_cache (cache_warmer (run_operations [Query (example_call small_store ''S1'')] init_engine))
     \<noteq> []
   \<and> list_all (\<lambda>kv. priority (snd kv) \<ge> 0.3)
        (warm_cache (cache_warmer
           (run_operations [Query (example_call small_store ''S1'')] init_engine)))
   \<and> cache_priority low_priority_item < cache_priority_threshold init_warmer
   \<and> preload_to_context 0 [low_priority_item] init_warmer = init_warmer"
proof -
  let ?eng = "run_operations [Query (example_call small_store ''S1'')] init_engine"
  note T = cache_entries_above_threshold
    [of "[Query (example_call small_store ''S1'')]" "[]" low_priority_item init_warmer 0]
  have ne: "warm_cache (cache_warmer ?eng) \<noteq> []"
    using small_cache by auto
  have low: "cache_priority low_priority_item < cache_priority_threshold init_warmer"
    by (simp add: init_warmer_def low_priority_item_def)
  from T have A: "\<forall>kv \<in> set (warm_cache (cache_warmer ?eng)).
      priority (snd kv) \<ge> cache_priority_threshold (cache_warmer ?eng)"
    and B: "cache_priority_threshold (cache_warmer ?eng) = 0.3"
    by blast+
  have C: "list_all (\<lambda>kv. priority (snd kv) \<ge> 0.3) (warm_cache (cache_warmer ?eng))"
    using A unfolding B list_all_iff by assumption
  from T low have D: "preload_to_context 0 [low_priority_item] init_warmer = init_warmer"
    by blast
  from ne C low D show ?thesis by blast
qed

subsection \<open>The phases of \<open>warm_cache_for_session\<close>\<close>







subsection \<open>\<open>ensure_cache_warmed\<close> and \<open>process_query\<close>\<close>



lemma ensure_registered:
  "session_cache_warmed eng sid \<noteq> None \<Longrightarrow> ensure_cache_warmed env sid uc eng = (Inr True, eng)"
  "session_cache_warmed eng sid \<noteq> None \<Longrightarrow> ensure_cache_warmed_mcp env sid uc eng = (Inr True, eng)"
  by (simp_all add: ensure_cache_warmed_def ensure_cache_warmed_mcp_def)

lemma ensure_registry:
  "session_cache_warmed eng sid = None \<Longrightarrow>
     (case fst (ensure_cache_warmed env sid uc eng) of
        Inl e \<Rightarrow> session_cache_warmed (snd (ensure_cache_warmed env sid uc eng))
                  = session_cache_warmed eng
      | Inr b \<Rightarrow> session_cache_warmed (snd (ensure_cache_warmed env sid uc eng)) sid \<noteq> None)"
  unfolding ensure_cache_warmed_def Let_def
  by (auto split: prod.splits sum.splits)

lemma ensure_mcp_registry:
  "session_cache_warmed eng sid = None \<Longrightarrow>
     (case fst (ensure_cache_warmed_mcp env sid uc eng) of
        Inl e \<Rightarrow> session_cache_warmed (snd (ensure_cache_warmed_mcp env sid uc eng))
                  = session_cache_warmed eng
      | Inr b \<Rightarrow> session_cache_warmed (snd (ensure_cache_warmed_mcp env sid uc eng)) sid \<noteq> None)"
  unfolding ensure_cache_warmed_mcp_def Let_def
  by (auto split: prod.splits sum.splits)




text \<open>
  Whatever the state of the engine, an envelope that \<open>process_query\<close> returns has
  \<open>cache_hit = True\<close>: the flag is read after the session has been recorded.
\<close>

lemma process_query_cache_hit:
  "fst (process_query env q sid uc eng) = Inr r \<Longrightarrow> cache_hit (performance r)"
proof (cases "session_cache_warmed eng sid = None")
  case True
  assume r: "fst (process_query env q sid uc eng) = Inr r"
  from ensure_registry [OF True, of "warm env" uc] r show ?thesis
    unfolding process_query_def Let_def
    by (auto split: prod.splits sum.splits)
next
  case False
  assume r: "fst (process_query env q sid uc eng) = Inr r"
  with False show ?thesis
    unfolding process_query_def Let_def
    by (auto simp: ensure_registered split: prod.splits sum.splits)
qed

lemma process_query_mcp_cache_hit:
  "fst (process_query_mcp env q sid uc eng) = Inr r \<Longrightarrow> cache_hit (performance r)"
proof (cases "session_cache_warmed eng sid = None")
  case True
  assume r: "fst (process_query_mcp env q sid uc eng) = Inr r"
  from ensure_mcp_registry [OF True, of "warm env" uc] r show ?thesis
    unfolding process_query_mcp_def Let_def
    by (auto split: prod.splits sum.splits)
next
  case False
  assume r: "fst (process_query_mcp env q sid uc eng) = Inr r"
  with False show ?thesis
    unfolding process_query_mcp_def Let_def
    by (auto simp: ensure_registered split: prod.splits sum.splits)
qed

text \<open>
  C1 at a freshly constructed engine and the session \<open>S1\<close>, which is not in the warming
  registry: the first \<open>process_query\<close> returns an envelope with \<open>cache_hit = True\<close> and
  counts a hit (\<open>cache_hits = 1\<close>, \<open>cache_misses = 0\<close>), in both variants, where the claim
  says \<open>cache_hit = False\<close> and a counted miss.
\<close>

theorem first_query_reports_hit:
  "session_cache_warmed init_engine ''S1'' = None
   \<and> map_sum id (cache_hit \<circ> performance)
       (fst (process_query (call_env (example_call empty_store ''S1''))
               ''How do I implement CAG?'' ''S1'' None init_engine)) = Inr True
   \<and> cache_hits (performance_metrics (snd (process_query (call_env (example_call empty_store ''S1''))
               ''How do I implement CAG?'' ''S1'' None init_engine))) = 1
   \<and> cache_misses (performance_metrics (snd (process_query (call_env (example_call empty_store ''S1''))
               ''How do I implement CAG?'' ''S1'' None init_engine))) = 0
   \<and> map_sum id (cache_hit \<circ> performance)
       (fst (process_query_mcp (call_env (example_call empty_store ''S1''))
               ''How do I implement CAG?'' ''S1'' None init_engine_mcp)) = Inr True
   \<and> cache_hits (performance_metrics (snd (process_query_mcp (call_env (example_call empty_store ''S1''))
               ''How do I implement CAG?'' ''S1'' None init_engine_mcp))) = 1
   \<and> cache_misses (performance_metrics (snd (process_query_mcp (call_env (example_call empty_store ''S1''))
               ''How do I implement CAG?'' ''S1'' None init_engine_mcp))) = 0"
  by code_simp

subsection \<open>Warming once per session\<close>











subsection \<open>Performance metrics\<close>

















subsection \<open>\<open>get_cached_knowledge\<close>\<close>

lemma layer_query_unfolded:
  assumes "L \<noteq> []" and "0 \<le> limit"
  shows "get_cached_knowledge (Some L) limit w =
           take (nat limit) (sort_key (\<lambda>x. - priority (snd x))
                               (filter (in_layer L) (warm_cache w)))"
  using assms by (simp add: get_cached_knowledge_def py_take_def Let_def)

lemma take_sorted_rest:
  assumes "sorted (map f ys)" and "y \<in> set ys" and "y \<notin> set (take n ys)" and "r \<in> set (take n ys)"
  shows "f r \<le> f y"
proof -
  have "ys = take n ys @ drop n ys" by simp
  with assms(2,3) have yd: "y \<in> set (drop n ys)"
    by (metis Un_iff set_append)
  have "sorted (map f (take n ys) @ map f (drop n ys))"
    using assms(1) by (metis append_take_drop_id map_append)
  then have "\<forall>a \<in> set (map f (take n ys)). \<forall>b \<in> set (map f (drop n ys)). a \<le> b"
    by (simp add: sorted_append)
  with yd assms(4) show ?thesis by auto
qed

text \<open>
  C8, as the claim states it, fails: with eleven entries in the layer \<open>domain\<close>,
  \<open>get_cached_knowledge(layer="domain")\<close> returns ten of them (\<open>limit\<close> defaults to
  10); the entry \<open>domain:k\<close> is in the cache and not in the result.
\<close>

theorem layer_entries_beyond_limit_omitted:
  "length (filter (\<lambda>kv. prefix ''domain:'' (fst kv)) (warm_cache eleven_entry_warmer)) = 11
   \<and> length (get_cached_knowledge (Some ''domain'') 10 eleven_entry_warmer) = 10
   \<and> ''domain:k'' \<in> set (map fst (warm_cache eleven_entry_warmer))
   \<and> ''domain:k'' \<notin> set (map fst (get_cached_knowledge (Some ''domain'') 10 eleven_entry_warmer))"
  by code_simp

text \<open>
  C8, amended. For a non-empty layer name \<open>L\<close> and a limit \<open>\<ge> 0\<close> (10 by default),
  \<open>get_cached_knowledge(layer=L)\<close> returns only entries whose keys begin with \<open>L:\<close>,
  as many of them as there are up to the limit, in descending order of priority; an
  entry of the layer that is left out has a priority no higher than any returned one;
  and when the layer has at most \<open>limit\<close> entries, the result is exactly the set of the
  entries whose keys begin with \<open>L:\<close>.
\<close>

theorem get_cached_knowledge_layer:
  assumes "L \<noteq> []" and "0 \<le> limit"
  shows "set (get_cached_knowledge (Some L) limit w)
           \<subseteq> {kv \<in> set (warm_cache w). prefix (L @ '':'') (fst kv)}
       \<and> length (get_cached_knowledge (Some L) limit w)
           = min (nat limit) (length (filter (\<lambda>kv. prefix (L @ '':'') (fst kv)) (warm_cache w)))
       \<and> sorted (map (\<lambda>kv. - priority (snd kv)) (get_cached_knowledge (Some L) limit w))
       \<and> (\<forall>kv \<in> set (warm_cache w). \<forall>r \<in> set (get_cached_knowledge (Some L) limit w).
            prefix (L @ '':'') (fst kv) \<and> kv \<notin> set (get_cached_knowledge (Some L) limit w)
              \<longrightarrow> priority (snd kv) \<le> priority (snd r))
       \<and> (length (filter (\<lambda>kv. prefix (L @ '':'') (fst kv)) (warm_cache w)) \<le> nat limit \<longrightarrow>
            set (get_cached_knowledge (Some L) limit w)
              = {kv \<in> set (warm_cache w). prefix (L @ '':'') (fst kv)})"
proof -
  let ?f = "\<lambda>kv::string \<times> cache_entry. - priority (snd kv)"
  let ?m = "filter (in_layer L) (warm_cache w)"
  let ?ys = "sort_key ?f ?m"
  let ?n = "nat limit"
  have il: "in_layer L = (\<lambda>kv. prefix (L @ '':'') (fst kv))"
    by (rule ext) (simp add: in_layer_def)
  have g: "get_cached_knowledge (Some L) limit w = take ?n ?ys"
    using assms by (rule layer_query_unfolded)
  have sy: "set ?ys = {kv \<in> set (warm_cache w). prefix (L @ '':'') (fst kv)}"
    by (auto simp: in_layer_def)
  have ly: "length ?ys = length (filter (\<lambda>kv. prefix (L @ '':'') (fst kv)) (warm_cache w))"
    by (simp add: il)
  have so: "sorted (map ?f ?ys)" by (rule sorted_sort_key)
  have 1: "set (take ?n ?ys) \<subseteq> {kv \<in> set (warm_cache w). prefix (L @ '':'') (fst kv)}"
    using set_take_subset [of ?n ?ys] sy by blast
  have 2: "length (take ?n ?ys)
      = min (nat limit) (length (filter (\<lambda>kv. prefix (L @ '':'') (fst kv)) (warm_cache w)))"
    using ly by (simp add: min.commute)
  have 3: "sorted (map ?f (take ?n ?ys))"
    using so by (metis sorted_wrt_take take_map)
  have 4: "\<forall>kv \<in> set (warm_cache w). \<forall>r \<in> set (take ?n ?ys).
            prefix (L @ '':'') (fst kv) \<and> kv \<notin> set (take ?n ?ys)
              \<longrightarrow> priority (snd kv) \<le> priority (snd r)"
  proof (intro ballI impI)
    fix kv r
    assume kv: "kv \<in> set (warm_cache w)" and r: "r \<in> set (take ?n ?ys)"
      and h: "prefix (L @ '':'') (fst kv) \<and> kv \<notin> set (take ?n ?ys)"
    from kv h have "kv \<in> set ?ys" using sy by blast
    from take_sorted_rest [OF so this _ r] h have "?f r \<le> ?f kv" by blast
    then show "priority (snd kv) \<le> priority (snd r)" by simp
  qed
  have 5: "length (filter (\<lambda>kv. prefix (L @ '':'') (fst kv)) (warm_cache w)) \<le> nat limit \<longrightarrow>
            set (take ?n ?ys) = {kv \<in> set (warm_cache w). prefix (L @ '':'') (fst kv)}"
    using ly sy by simp
  from 1 2 3 4 5 show ?thesis unfolding g by blast
qed

theorem get_cached_knowledge_layer_witness:
  "''domain'' \<noteq> [] \<and> (0::int) \<le> 10
   \<and> length (get_cached_knowledge (Some ''domain'') 10 eleven_entry_warmer) = 10
   \<and> sorted (map (\<lambda>kv. - priority (snd kv))
        (get_cached_knowledge (Some ''domain'') 10 eleven_entry_warmer))"
proof -
  have h1: "''domain'' \<noteq> []" by simp
  have h2: "(0::int) \<le> 10" by simp
  have n: "length (filter (\<lambda>kv. prefix (''domain'' @ '':'') (fst kv))
             (warm_cache eleven_entry_warmer)) = 11"
    by code_simp
  from get_cached_knowledge_layer [OF h1 h2, of eleven_entry_warmer] n h1 h2
  show ?thesis by simp
qed

end
